theory Spec2Isabelle
  imports Complex_Main
begin

section \<open>Python values and exceptions\<close>

text \<open>
  The exceptions the modelled code can meet. \<open>ValueError\<close> is what
  \<open>datetime.strptime\<close> raises on a string that does not match its format and what
  \<open>min\<close> raises on an empty sequence; \<open>TypeError\<close> is what \<open>str.join\<close> raises on a
  non-string item and what iterating a non-iterable raises; \<open>AttributeError\<close> is a
  missing method such as \<open>.get\<close> on a list; \<open>KeyError\<close> a missing dictionary key;
  \<open>WebDriverException\<close> stands for any failure of the browser transport or of
  \<open>json.loads\<close> on the text it returned; \<open>RequestException\<close> for a failure of
  \<open>requests.post\<close>.
\<close>

datatype py_exception =
  ValueError | TypeError | AttributeError | KeyError | WebDriverException | RequestException

section \<open>SlotSelector: \<open>closest_time_to_desired_time\<close>\<close>

definition is_digit :: "char \<Rightarrow> bool" where
  "is_digit c = (c \<in> set ''0123456789'')"

definition digit_val :: "char \<Rightarrow> nat" where
  "digit_val c = of_char c - 48"

text \<open>
  \<open>datetime.strptime(s, "%H:%M")\<close>. The format compiles to the regular expression
  \<open>(2[0-3]|[0-1]\d|\d):([0-5]\d|\d)\<close>, matched at the start of the string; the
  alternatives are tried in this order, and a string with text left after the match
  raises \<open>ValueError\<close>. When a two-character alternative matches, the one-character
  alternative would be followed by a digit, never by the colon, so backtracking cannot
  succeed where the first matching alternative fails; the functions below therefore
  commit to the first matching alternative. Strings are ASCII. The result is the time
  of day in minutes (\<open>None\<close> is the \<open>ValueError\<close>).
\<close>

fun parse_hour :: "string \<Rightarrow> (nat \<times> string) option" where
  "parse_hour (a # b # rest) =
     (if a = CHR ''2'' \<and> b \<in> set ''0123'' then Some (20 + digit_val b, rest)
      else if a \<in> set ''01'' \<and> is_digit b then Some (10 * digit_val a + digit_val b, rest)
      else if is_digit a then Some (digit_val a, b # rest)
      else None)"
| "parse_hour [a] = (if is_digit a then Some (digit_val a, []) else None)"
| "parse_hour [] = None"

fun parse_minute :: "string \<Rightarrow> (nat \<times> string) option" where
  "parse_minute (a # b # rest) =
     (if a \<in> set ''012345'' \<and> is_digit b then Some (10 * digit_val a + digit_val b, rest)
      else if is_digit a then Some (digit_val a, b # rest)
      else None)"
| "parse_minute [a] = (if is_digit a then Some (digit_val a, []) else None)"
| "parse_minute [] = None"

definition strptime_HM :: "string \<Rightarrow> nat option" where
  "strptime_HM s =
     (case parse_hour s of
        None \<Rightarrow> None
      | Some (h, rest) \<Rightarrow>
          (case rest of
             [] \<Rightarrow> None
           | c # rest' \<Rightarrow>
               if c \<noteq> CHR '':'' then None
               else (case parse_minute rest' of
                       None \<Rightarrow> None
                     | Some (m, rest'') \<Rightarrow> if rest'' = [] then Some (60 * h + m) else None)))"

text \<open>
  The key of the \<open>min\<close> call: \<open>abs(datetime.strptime(t, "%H:%M") - target)\<close>, a
  \<open>timedelta\<close>, here in whole minutes.
\<close>

definition time_key :: "nat \<Rightarrow> string \<Rightarrow> py_exception + int" where
  "time_key target t =
     (case strptime_HM t of
        None \<Rightarrow> Inl ValueError
      | Some m \<Rightarrow> Inr \<bar>int m - int target\<bar>)"

text \<open>
  Python's \<open>min(iterable, key=f)\<close>: the key of each item is computed in input order
  (an exception of \<open>f\<close> propagates), and an item replaces the current best only when
  its key is strictly smaller. An empty iterable raises \<open>ValueError\<close>.
\<close>

fun min_loop :: "('a \<Rightarrow> py_exception + int) \<Rightarrow> 'a \<Rightarrow> int \<Rightarrow> 'a list \<Rightarrow> py_exception + 'a" where
  "min_loop f best kbest [] = Inr best"
| "min_loop f best kbest (x # xs) =
     (case f x of
        Inl e \<Rightarrow> Inl e
      | Inr k \<Rightarrow> if k < kbest then min_loop f x k xs else min_loop f best kbest xs)"

definition py_min :: "('a \<Rightarrow> py_exception + int) \<Rightarrow> 'a list \<Rightarrow> py_exception + 'a" where
  "py_min f xs =
     (case xs of
        [] \<Rightarrow> Inl ValueError
      | x # rest \<Rightarrow> (case f x of Inl e \<Rightarrow> Inl e | Inr k \<Rightarrow> min_loop f x k rest))"

definition closest_time_to_desired_time :: "string list \<Rightarrow> string \<Rightarrow> py_exception + string" where
  "closest_time_to_desired_time available_hours desired_time =
     (case strptime_HM desired_time of
        None \<Rightarrow> Inl ValueError
      | Some target \<Rightarrow> py_min (time_key target) available_hours)"

text \<open>
  The distance the specification speaks of: the absolute difference, in minutes, between
  a candidate and the desired time of day (given in minutes).
\<close>

definition minutes_apart :: "nat \<Rightarrow> string \<Rightarrow> int" where
  "minutes_apart target t = (case strptime_HM t of None \<Rightarrow> 0 | Some m \<Rightarrow> \<bar>int m - int target\<bar>)"

section \<open>Parsed JSON and the Python operations applied to it\<close>

text \<open>
  The value \<open>json.loads\<close> returns. Numbers are integers here (the code only tests
  them for truth). An object is an association list standing for the parsed \<open>dict\<close>:
  its keys are distinct and a lookup takes the binding of the key.
\<close>

datatype json =
  JNull | JBool bool | JNum int | JStr string | JArr "json list" | JObj "(string \<times> json) list"

text \<open>Python's truth test, as \<open>if x:\<close> and \<open>not x\<close> apply it.\<close>

fun truthy :: "json \<Rightarrow> bool" where
  "truthy JNull = False"
| "truthy (JBool b) = b"
| "truthy (JNum n) = (n \<noteq> 0)"
| "truthy (JStr s) = (s \<noteq> [])"
| "truthy (JArr xs) = (xs \<noteq> [])"
| "truthy (JObj kvs) = (kvs \<noteq> [])"

text \<open>\<open>x.get(k)\<close>: \<open>None\<close> for a missing key; only a \<open>dict\<close> has the method.\<close>

definition py_get :: "json \<Rightarrow> string \<Rightarrow> py_exception + json" where
  "py_get j k =
     (case j of
        JObj kvs \<Rightarrow> Inr (case map_of kvs k of None \<Rightarrow> JNull | Some v \<Rightarrow> v)
      | _ \<Rightarrow> Inl AttributeError)"

text \<open>\<open>x[k]\<close> with a string key.\<close>

definition py_subscript :: "json \<Rightarrow> string \<Rightarrow> py_exception + json" where
  "py_subscript j k =
     (case j of
        JObj kvs \<Rightarrow> (case map_of kvs k of None \<Rightarrow> Inl KeyError | Some v \<Rightarrow> Inr v)
      | _ \<Rightarrow> Inl TypeError)"

text \<open>
  Iteration: a list yields its items, a \<open>dict\<close> its keys, a string its characters;
  nothing else is iterable.
\<close>

definition py_iter :: "json \<Rightarrow> py_exception + json list" where
  "py_iter j =
     (case j of
        JArr xs \<Rightarrow> Inr xs
      | JObj kvs \<Rightarrow> Inr (map (\<lambda>kv. JStr (fst kv)) kvs)
      | JStr s \<Rightarrow> Inr (map (\<lambda>c. JStr [c]) s)
      | _ \<Rightarrow> Inl TypeError)"

text \<open>
  \<open>", ".join(items)\<close> needs every item to be a string; the joined text is only printed
  or logged, so the model keeps the items.
\<close>

fun all_strs :: "json list \<Rightarrow> py_exception + string list" where
  "all_strs [] = Inr []"
| "all_strs (JStr s # js) = (case all_strs js of Inl e \<Rightarrow> Inl e | Inr ss \<Rightarrow> Inr (s # ss))"
| "all_strs (_ # js) = Inl TypeError"

definition py_join :: "json \<Rightarrow> py_exception + string list" where
  "py_join j = (case py_iter j of Inl e \<Rightarrow> Inl e | Inr items \<Rightarrow> all_strs items)"

section \<open>The environment: transport, sinks and clock\<close>

text \<open>
  The browser transport, the remote service, the clock and the random generator are
  outside the program. Each is an oracle: what the \<open>k\<close>-th call returns, with a counter
  of the calls made so far. A \<open>reply\<close> is the outcome of one authenticated read
  (\<open>get_cookie\<close>, \<open>execute_script\<close>, \<open>json.loads\<close>): any of the three raising, or the
  parsed content.

  The sinks (\<open>print\<close>, \<open>info_logger\<close>, \<open>send_notification\<close>, \<open>str_to_google_voice\<close>,
  \<open>time.sleep\<close>) and plain page navigation (\<open>DRIVER.get\<close>) are effects that return
  normally; each is recorded as an event of the trace, in program order. Output on the
  console is not recorded. Durations and clock readings are real numbers, in seconds.
\<close>

datatype reply = Raises py_exception | Content json

datatype login_page = LoginRaises py_exception | WrongCredentialsShown | ContinueShown

datatype url =
  SIGN_IN_LINK | SIGN_OUT_LINK | APPOINTMENT_URL | DATE_URL
| TIME_URL string
| CAS_DATE_URL string string
| CAS_TIME_URL string string string

datatype title = SUCCESS | EXCEPTION | BAN | REST

text \<open>The messages of the code, by their format string and its arguments.\<close>

datatype message =
  LoginFailedMsg py_exception
| WrongCredentialsMsg
| CasDateErrorMsg string string py_exception
| CasTimeErrorMsg string string string py_exception
| TimeErrorMsg string py_exception
| TimeLookupFailedMsg
| CasDateLookupFailedMsg
| CasTimeLookupFailedMsg
| RescheduleRequestMsg string string string string
| ResponseMsg int string
| RescheduledMsg string string string string
| NotRescheduledMsg string string
| RequestStatusMsg nat
| BanMsg real
| AvailableDatesMsg "string list"
| WorkingTimeMsg real
| BreakTimeMsg real nat
| RetryWaitMsg int
| LoopBrokenMsg py_exception
| ExecutionFailedMsg

datatype event =
  Get url
| Script url
| Post string string string string
| Log message
| Voice message
| Notify title message
| Sleep real

record world =
  driver_present :: bool
  script_replies :: "nat \<Rightarrow> reply"
  n_script :: nat
  login_pages :: "nat \<Rightarrow> login_page"
  n_login :: nat
  post_replies :: "nat \<Rightarrow> py_exception + (int \<times> string)"
  n_post :: nat
  clock_readings :: "nat \<Rightarrow> real"
  n_clock :: nat
  randint_results :: "nat \<Rightarrow> real \<Rightarrow> real \<Rightarrow> py_exception + int"
  n_randint :: nat
  trace :: "event list"

definition emit :: "event list \<Rightarrow> world \<Rightarrow> world" where
  "emit evs w = w\<lparr>trace := trace w @ evs\<rparr>"

text \<open>One authenticated read of a URL through \<open>JS_SCRIPT\<close>, parsed.\<close>

definition execute_script :: "url \<Rightarrow> world \<Rightarrow> reply \<times> world" where
  "execute_script u w =
     (script_replies w (n_script w),
      w\<lparr>n_script := Suc (n_script w), trace := trace w @ [Script u]\<rparr>)"

definition requests_post :: "string \<Rightarrow> string \<Rightarrow> string \<Rightarrow> string \<Rightarrow> world
    \<Rightarrow> (py_exception + (int \<times> string)) \<times> world" where
  "requests_post d t cd ct w =
     (post_replies w (n_post w),
      w\<lparr>n_post := Suc (n_post w), trace := trace w @ [Post d t cd ct]\<rparr>)"

definition time_time :: "world \<Rightarrow> real \<times> world" where
  "time_time w = (clock_readings w (n_clock w), w\<lparr>n_clock := Suc (n_clock w)\<rparr>)"

text \<open>
  \<open>random.randint(a, b)\<close>: the library's draw for these bounds, or the exception it
  raises on arguments it does not accept. The oracle of the \<open>k\<close>-th call is a function
  of the two arguments.
\<close>

definition random_randint :: "real \<Rightarrow> real \<Rightarrow> world \<Rightarrow> (py_exception + int) \<times> world" where
  "random_randint a b w =
     (randint_results w (n_randint w) a b, w\<lparr>n_randint := Suc (n_randint w)\<rparr>)"

text \<open>\<open>_handle_notification\<close>: log, speak, notify.\<close>

definition handle_notification :: "title \<Rightarrow> message \<Rightarrow> world \<Rightarrow> world" where
  "handle_notification msg_title msg w = emit [Log msg, Voice msg, Notify msg_title msg] w"

section \<open>Constants\<close>

definition MINUTE :: real where "MINUTE = 60"
definition HOUR :: real where "HOUR = 60 * MINUTE"
definition STEP_TIME :: real where "STEP_TIME = 1 / 2"
definition REQUEST_ATTEMPTS :: nat where "REQUEST_ATTEMPTS = 5"

definition SUCCESS_PATTERNS :: "string list" where
  "SUCCESS_PATTERNS =
     [''Successfully Scheduled'', ''Usted ha programado exitosamente su cita de visa'']"

text \<open>The values read from \<open>config.ini\<close>.\<close>

record config =
  PRIOD_START :: string
  PRIOD_END :: string
  RETRY_TIME_L_BOUND :: real
  RETRY_TIME_U_BOUND :: real
  WORK_LIMIT_TIME :: real
  WORK_COOLDOWN_TIME :: real
  BAN_COOLDOWN_TIME :: real

section \<open>SessionAuthenticator: \<open>start_login_process\<close>\<close>

text \<open>
  One pass of the \<open>try\<close> body: navigation to the sign-in page, the form actions and
  the wait for a marker. Any of them raising is \<open>LoginRaises\<close>; otherwise the page
  shows the wrong-credentials marker or it does not.
\<close>

definition login_attempt :: "world \<Rightarrow> login_page \<times> world" where
  "login_attempt w =
     (login_pages w (n_login w),
      w\<lparr>n_login := Suc (n_login w), trace := trace w @ [Get SIGN_IN_LINK]\<rparr>)"

text \<open>
  \<open>while attempts < REQUEST_ATTEMPTS\<close>, with \<open>attempts\<close> incremented first in each
  pass: the argument counts the passes left.
\<close>

fun login_loop :: "nat \<Rightarrow> world \<Rightarrow> bool \<times> world" where
  "login_loop 0 w = (False, w)"
| "login_loop (Suc n) w =
     (case login_attempt w of
        (LoginRaises e, w1) \<Rightarrow> login_loop n (emit [Log (LoginFailedMsg e), Sleep STEP_TIME] w1)
      | (WrongCredentialsShown, w1) \<Rightarrow>
          (False, handle_notification EXCEPTION WrongCredentialsMsg w1)
      | (ContinueShown, w1) \<Rightarrow> (True, w1))"

definition start_login_process :: "world \<Rightarrow> bool \<times> world" where
  "start_login_process w = login_loop REQUEST_ATTEMPTS w"

section \<open>SlotQuery\<close>

text \<open>
  The functions that return \<open>str | bool\<close> return a string or \<open>False\<close>: here
  \<open>Some s\<close> or \<open>None\<close>. \<open>falsy\<close> is the caller's \<open>not x\<close> on such a value.
\<close>

definition falsy :: "string option \<Rightarrow> bool" where
  "falsy x = (case x of None \<Rightarrow> True | Some s \<Rightarrow> s = [])"

text \<open>
  What one pass of a \<open>try\<close> body yields from the reply of its read: the exception of
  the read, or whatever the rest of the body makes of the parsed content.
\<close>

definition attempt :: "(json \<Rightarrow> py_exception + 'a) \<Rightarrow> reply \<Rightarrow> py_exception + 'a" where
  "attempt select r = (case r of Raises e \<Rightarrow> Inl e | Content j \<Rightarrow> select j)"

subsection \<open>\<open>get_cas_date\<close>\<close>

text \<open>
  The comprehension \<open>[item["date"] for item in json_data if item.get("business_day")]\<close>
  over the items already obtained from \<open>json_data\<close>.
\<close>

fun business_day_dates :: "json list \<Rightarrow> py_exception + json list" where
  "business_day_dates [] = Inr []"
| "business_day_dates (item # items) =
     (case py_get item ''business_day'' of
        Inl e \<Rightarrow> Inl e
      | Inr flag \<Rightarrow>
          if truthy flag then
            (case py_subscript item ''date'' of
               Inl e \<Rightarrow> Inl e
             | Inr d \<Rightarrow>
                 (case business_day_dates items of
                    Inl e \<Rightarrow> Inl e
                  | Inr ds \<Rightarrow> Inr (d # ds)))
          else business_day_dates items)"

text \<open>
  The rest of the \<open>try\<close> body once the content is parsed: \<open>Inr (Some d)\<close> is
  \<open>return cas_date\<close>, \<open>Inr None\<close> is falling out of the \<open>if dates:\<close>, \<open>Inl e\<close> an
  exception. \<open>dates[-1]\<close> is taken after \<open>", ".join(dates)\<close> has passed.
\<close>

definition select_cas_date :: "json \<Rightarrow> py_exception + string option" where
  "select_cas_date json_data =
     (case py_iter json_data of
        Inl e \<Rightarrow> Inl e
      | Inr items \<Rightarrow>
          (case business_day_dates items of
             Inl e \<Rightarrow> Inl e
           | Inr dates \<Rightarrow>
               if dates \<noteq> [] then
                 (case all_strs dates of
                    Inl e \<Rightarrow> Inl e
                  | Inr strs \<Rightarrow> Inr (Some (last strs)))
               else Inr None))"

text \<open>
  \<open>for attempt in range(1, REQUEST_ATTEMPTS + 1)\<close>: the first argument counts the
  passes left. A pass that does not return prints, sleeps \<open>STEP_TIME\<close> and goes on;
  the \<open>except\<close> clause logs first.
\<close>

fun get_cas_date_loop :: "nat \<Rightarrow> string \<Rightarrow> string \<Rightarrow> world \<Rightarrow> string option \<times> world" where
  "get_cas_date_loop 0 consulate_date consulate_time w = (None, w)"
| "get_cas_date_loop (Suc n) consulate_date consulate_time w =
     (case execute_script (CAS_DATE_URL consulate_date consulate_time) w of
        (r, w1) \<Rightarrow>
          (case attempt select_cas_date r of
             Inr (Some cas_date) \<Rightarrow> (Some cas_date, w1)
           | Inr None \<Rightarrow>
               get_cas_date_loop n consulate_date consulate_time (emit [Sleep STEP_TIME] w1)
           | Inl e \<Rightarrow>
               get_cas_date_loop n consulate_date consulate_time
                 (emit [Log (CasDateErrorMsg consulate_date consulate_time e),
                        Sleep STEP_TIME] w1)))"

definition get_cas_date :: "string \<Rightarrow> string \<Rightarrow> world \<Rightarrow> string option \<times> world" where
  "get_cas_date consulate_date consulate_time w =
     get_cas_date_loop REQUEST_ATTEMPTS consulate_date consulate_time w"

subsection \<open>\<open>get_cas_time\<close>\<close>

definition select_cas_time :: "json \<Rightarrow> py_exception + string option" where
  "select_cas_time json_data =
     (case py_get json_data ''available_times'' of
        Inl e \<Rightarrow> Inl e
      | Inr available_times \<Rightarrow>
          if truthy available_times then
            (case py_join available_times of
               Inl e \<Rightarrow> Inl e
             | Inr time_strs \<Rightarrow>
                 (case closest_time_to_desired_time time_strs ''10:00'' of
                    Inl e \<Rightarrow> Inl e
                  | Inr closest_time \<Rightarrow> Inr (Some closest_time)))
          else Inr None)"

fun get_cas_time_loop :: "nat \<Rightarrow> string \<Rightarrow> string \<Rightarrow> string \<Rightarrow> world \<Rightarrow> string option \<times> world" where
  "get_cas_time_loop 0 consulate_date consulate_time cas_date w = (None, w)"
| "get_cas_time_loop (Suc n) consulate_date consulate_time cas_date w =
     (case execute_script (CAS_TIME_URL cas_date consulate_date consulate_time) w of
        (r, w1) \<Rightarrow>
          (case attempt select_cas_time r of
             Inr (Some closest_time) \<Rightarrow> (Some closest_time, w1)
           | Inr None \<Rightarrow>
               get_cas_time_loop n consulate_date consulate_time cas_date
                 (emit [Sleep STEP_TIME] w1)
           | Inl e \<Rightarrow>
               get_cas_time_loop n consulate_date consulate_time cas_date
                 (emit [Log (CasTimeErrorMsg cas_date consulate_date consulate_time e),
                        Sleep STEP_TIME] w1)))"

definition get_cas_time :: "string \<Rightarrow> string \<Rightarrow> string \<Rightarrow> world \<Rightarrow> string option \<times> world" where
  "get_cas_time consulate_date consulate_time cas_date w =
     get_cas_time_loop REQUEST_ATTEMPTS consulate_date consulate_time cas_date w"

subsection \<open>\<open>get_consulate_appointment_date\<close>\<close>

text \<open>One read, no loop. \<open>return False\<close> is the JSON value \<open>JBool False\<close>.\<close>

definition get_consulate_appointment_date :: "world \<Rightarrow> json \<times> world" where
  "get_consulate_appointment_date w =
     (case execute_script DATE_URL w of
        (Raises e, w1) \<Rightarrow> (JBool False, w1)
      | (Content dates, w1) \<Rightarrow> (dates, w1))"

subsection \<open>\<open>get_consulate_appointment_time\<close>\<close>

text \<open>No truth test of \<open>available_times\<close> here: the join and the \<open>min\<close> run on it as it is.\<close>

definition select_time :: "json \<Rightarrow> py_exception + string" where
  "select_time data =
     (case py_get data ''available_times'' of
        Inl e \<Rightarrow> Inl e
      | Inr available_times \<Rightarrow>
          (case py_join available_times of
             Inl e \<Rightarrow> Inl e
           | Inr time_strs \<Rightarrow> closest_time_to_desired_time time_strs ''10:00''))"

fun get_consulate_appointment_time_loop :: "nat \<Rightarrow> string \<Rightarrow> world \<Rightarrow> string option \<times> world" where
  "get_consulate_appointment_time_loop 0 date_visa w = (None, w)"
| "get_consulate_appointment_time_loop (Suc n) date_visa w =
     (case execute_script (TIME_URL date_visa) w of
        (r, w1) \<Rightarrow>
          (case attempt select_time r of
             Inr time_available \<Rightarrow> (Some time_available, w1)
           | Inl e \<Rightarrow>
               get_consulate_appointment_time_loop n date_visa
                 (emit [Log (TimeErrorMsg date_visa e), Sleep STEP_TIME] w1)))"

definition get_consulate_appointment_time :: "string \<Rightarrow> world \<Rightarrow> string option \<times> world" where
  "get_consulate_appointment_time date_visa w =
     get_consulate_appointment_time_loop REQUEST_ATTEMPTS date_visa w"

section \<open>Dates and the target period\<close>

text \<open>
  \<open>datetime.strptime(s, "%Y-%m-%d")\<close>: the regular expression is
  \<open>(\d\d\d\d)-(1[0-2]|0[1-9]|[1-9])-(3[0-1]|[1-2]\d|0[1-9]|[1-9]| [1-9])\<close>, then the
  date has to exist (year 1 at least, the day within the month). The result is
  (year, month, day); \<open>None\<close> is the \<open>ValueError\<close>.
\<close>

definition is_nonzero_digit :: "char \<Rightarrow> bool" where
  "is_nonzero_digit c = (c \<in> set ''123456789'')"

fun parse_year :: "string \<Rightarrow> (nat \<times> string) option" where
  "parse_year (a # b # c # d # rest) =
     (if is_digit a \<and> is_digit b \<and> is_digit c \<and> is_digit d
      then Some (1000 * digit_val a + 100 * digit_val b + 10 * digit_val c + digit_val d, rest)
      else None)"
| "parse_year _ = None"

fun parse_month :: "string \<Rightarrow> (nat \<times> string) option" where
  "parse_month (a # b # rest) =
     (if a = CHR ''1'' \<and> b \<in> set ''012'' then Some (10 + digit_val b, rest)
      else if a = CHR ''0'' \<and> is_nonzero_digit b then Some (digit_val b, rest)
      else if is_nonzero_digit a then Some (digit_val a, b # rest)
      else None)"
| "parse_month [a] = (if is_nonzero_digit a then Some (digit_val a, []) else None)"
| "parse_month [] = None"

fun parse_day :: "string \<Rightarrow> (nat \<times> string) option" where
  "parse_day (a # b # rest) =
     (if a = CHR ''3'' \<and> b \<in> set ''01'' then Some (30 + digit_val b, rest)
      else if a \<in> set ''12'' \<and> is_digit b then Some (10 * digit_val a + digit_val b, rest)
      else if a = CHR ''0'' \<and> is_nonzero_digit b then Some (digit_val b, rest)
      else if is_nonzero_digit a then Some (digit_val a, b # rest)
      else if a = CHR '' '' \<and> is_nonzero_digit b then Some (digit_val b, rest)
      else None)"
| "parse_day [a] = (if is_nonzero_digit a then Some (digit_val a, []) else None)"
| "parse_day [] = None"

definition is_leap :: "nat \<Rightarrow> bool" where
  "is_leap y = (y mod 4 = 0 \<and> (y mod 100 \<noteq> 0 \<or> y mod 400 = 0))"

definition days_in_month :: "nat \<Rightarrow> nat \<Rightarrow> nat" where
  "days_in_month y m =
     (if m = 2 then (if is_leap y then 29 else 28)
      else if m \<in> set [4, 6, 9, 11] then 30
      else 31)"

type_synonym date = "nat \<times> nat \<times> nat"

definition strptime_Ymd :: "string \<Rightarrow> date option" where
  "strptime_Ymd s =
     (case parse_year s of
        None \<Rightarrow> None
      | Some (y, r1) \<Rightarrow>
          (case r1 of
             [] \<Rightarrow> None
           | c1 # r2 \<Rightarrow>
               if c1 \<noteq> CHR ''-'' then None
               else (case parse_month r2 of
                       None \<Rightarrow> None
                     | Some (m, r3) \<Rightarrow>
                         (case r3 of
                            [] \<Rightarrow> None
                          | c2 # r4 \<Rightarrow>
                              if c2 \<noteq> CHR ''-'' then None
                              else (case parse_day r4 of
                                      None \<Rightarrow> None
                                    | Some (d, r5) \<Rightarrow>
                                        if r5 = [] \<and> 1 \<le> y \<and> d \<le> days_in_month y m
                                        then Some (y, m, d)
                                        else None)))))"

text \<open>\<open>a <= b\<close> on two dates.\<close>

fun date_le :: "date \<Rightarrow> date \<Rightarrow> bool" where
  "date_le (y1, m1, d1) (y2, m2, d2) =
     (y1 < y2 \<or> (y1 = y2 \<and> (m1 < m2 \<or> (m1 = m2 \<and> d1 \<le> d2))))"

definition is_in_period :: "string \<Rightarrow> date \<Rightarrow> date \<Rightarrow> py_exception + bool" where
  "is_in_period date priod_start_date_obj priod_end_date_obj =
     (case strptime_Ymd date of
        None \<Rightarrow> Inl ValueError
      | Some new_date \<Rightarrow>
          Inr (date_le new_date priod_end_date_obj \<and> date_le priod_start_date_obj new_date))"

text \<open>
  The \<open>for d in dates\<close> loop of \<open>get_available_date\<close>; \<open>strptime\<close> on a value that
  is not a string raises \<open>TypeError\<close>.
\<close>

fun first_in_period :: "json list \<Rightarrow> date \<Rightarrow> date \<Rightarrow> py_exception + string option" where
  "first_in_period [] s e = Inr None"
| "first_in_period (d # ds) s e =
     (case py_get d ''date'' of
        Inl ex \<Rightarrow> Inl ex
      | Inr (JStr date) \<Rightarrow>
          (case is_in_period date s e of
             Inl ex \<Rightarrow> Inl ex
           | Inr True \<Rightarrow> Inr (Some date)
           | Inr False \<Rightarrow> first_in_period ds s e)
      | Inr _ \<Rightarrow> Inl TypeError)"

definition get_available_date :: "config \<Rightarrow> json \<Rightarrow> py_exception + string option" where
  "get_available_date cfg dates =
     (case strptime_Ymd (PRIOD_START cfg) of
        None \<Rightarrow> Inl ValueError
      | Some priod_start_date_obj \<Rightarrow>
          (case strptime_Ymd (PRIOD_END cfg) of
             None \<Rightarrow> Inl ValueError
           | Some priod_end_date_obj \<Rightarrow>
               (case py_iter dates of
                  Inl e \<Rightarrow> Inl e
                | Inr items \<Rightarrow> first_in_period items priod_start_date_obj priod_end_date_obj)))"

section \<open>RescheduleSubmitter: \<open>reschedule\<close>\<close>

text \<open>\<open>substring in text\<close> on two strings.\<close>

fun starts_with :: "string \<Rightarrow> string \<Rightarrow> bool" where
  "starts_with [] s = True"
| "starts_with (p # ps) [] = False"
| "starts_with (p # ps) (c # cs) = (p = c \<and> starts_with ps cs)"

fun str_in :: "string \<Rightarrow> string \<Rightarrow> bool" where
  "str_in substring [] = (substring = [])"
| "str_in substring (c # cs) = (starts_with substring (c # cs) \<or> str_in substring cs)"

text \<open>
  The hidden form fields and the headers are read from the page and only copied into
  the request; the model keeps the four appointment fields of the payload. The two
  \<open>strptime\<close> calls that render the dates for the messages run after the request was
  sent and before the response text is scanned.
\<close>

definition submit_reschedule :: "string \<Rightarrow> string \<Rightarrow> string \<Rightarrow> string \<Rightarrow> world
    \<Rightarrow> (py_exception + bool) \<times> world" where
  "submit_reschedule date time cas_date cas_time w =
     (case requests_post date time cas_date cas_time
             (emit [Log (RescheduleRequestMsg date time cas_date cas_time)] w) of
        (Inl e, w1) \<Rightarrow> (Inl e, w1)
      | (Inr (status_code, text), w1) \<Rightarrow>
          (let w2 = emit [Log (ResponseMsg status_code text)] w1 in
           case strptime_Ymd date of
             None \<Rightarrow> (Inl ValueError, w2)
           | Some appointment_date \<Rightarrow>
               (case strptime_Ymd cas_date of
                  None \<Rightarrow> (Inl ValueError, w2)
                | Some cas_date_obj \<Rightarrow>
                    if list_ex (\<lambda>substring. str_in substring text) SUCCESS_PATTERNS
                    then (Inr True,
                          handle_notification SUCCESS
                            (RescheduledMsg date time cas_date cas_time) w2)
                    else (Inr False,
                          handle_notification EXCEPTION (NotRescheduledMsg date time) w2))))"

text \<open>
  \<open>reschedule\<close>: the three dependent lookups, each followed by the caller's
  \<open>if not x\<close> (a \<open>False\<close> or an empty string), then the submission above. Past a
  failed \<open>falsy x\<close> the value is \<open>Some s\<close>, and \<open>the x\<close> is that string.
\<close>

definition reschedule :: "string \<Rightarrow> world \<Rightarrow> (py_exception + bool) \<times> world" where
  "reschedule date w =
     (case get_consulate_appointment_time date (emit [Get APPOINTMENT_URL] w) of
        (time, w1) \<Rightarrow>
          if falsy time
          then (Inr False, handle_notification EXCEPTION TimeLookupFailedMsg w1)
          else
            (case get_cas_date date (the time) w1 of
               (cas_date, w2) \<Rightarrow>
                 if falsy cas_date
                 then (Inr False, handle_notification EXCEPTION CasDateLookupFailedMsg w2)
                 else
                   (case get_cas_time date (the time) (the cas_date) w2 of
                      (cas_time, w3) \<Rightarrow>
                        if falsy cas_time
                        then (Inr False,
                              handle_notification EXCEPTION CasTimeLookupFailedMsg w3)
                        else submit_reschedule date (the time) (the cas_date)
                               (the cas_time) w3)))"

section \<open>PollingLoop: \<open>start_visa_process\<close>\<close>

text \<open>
  The local variables of \<open>start_visa_process\<close>. \<open>first_loop\<close> is the flag that sends
  the next pass through the login block: while it is set the loop is about to
  authenticate, once it is cleared the loop is polling.
\<close>

record loop_vars =
  first_loop :: bool
  t0 :: real
  total_time :: real
  req_count :: nat

text \<open>How a pass of the \<open>while True\<close> body ends: at its end or a \<open>continue\<close>, or a \<open>break\<close>.\<close>

datatype control = Continue | Break

definition log_request_status :: "nat \<Rightarrow> world \<Rightarrow> world" where
  "log_request_status n w = emit [Log (RequestStatusMsg n)] w"

definition handle_ban_situation :: "config \<Rightarrow> world \<Rightarrow> world" where
  "handle_ban_situation cfg w =
     emit [Log (BanMsg (BAN_COOLDOWN_TIME cfg)),
           Notify BAN (BanMsg (BAN_COOLDOWN_TIME cfg)),
           Get SIGN_OUT_LINK,
           Sleep (BAN_COOLDOWN_TIME cfg * HOUR)] w"

text \<open>
  \<open>", ".join(d.get("date") for d in dates)\<close>: the generator is run to its end before
  the items are checked to be strings.
\<close>

fun get_dates :: "json list \<Rightarrow> py_exception + json list" where
  "get_dates [] = Inr []"
| "get_dates (d # ds) =
     (case py_get d ''date'' of
        Inl e \<Rightarrow> Inl e
      | Inr v \<Rightarrow> (case get_dates ds of Inl e \<Rightarrow> Inl e | Inr vs \<Rightarrow> Inr (v # vs)))"

definition log_available_dates :: "json \<Rightarrow> world \<Rightarrow> py_exception + world" where
  "log_available_dates dates w =
     (case py_iter dates of
        Inl e \<Rightarrow> Inl e
      | Inr items \<Rightarrow>
          (case get_dates items of
             Inl e \<Rightarrow> Inl e
           | Inr vs \<Rightarrow>
               (case all_strs vs of
                  Inl e \<Rightarrow> Inl e
                | Inr strs \<Rightarrow> Inr (emit [Log (AvailableDatesMsg strs)] w))))"

definition handle_break_time :: "config \<Rightarrow> real \<Rightarrow> nat \<Rightarrow> world \<Rightarrow> bool \<times> world" where
  "handle_break_time cfg elapsed n w =
     (let w1 = emit [Log (WorkingTimeMsg elapsed)] w in
      if elapsed > WORK_LIMIT_TIME cfg * HOUR
      then (True,
            emit [Log (BreakTimeMsg (WORK_LIMIT_TIME cfg) n),
                  Notify REST (BreakTimeMsg (WORK_LIMIT_TIME cfg) n),
                  Get SIGN_OUT_LINK,
                  Sleep (WORK_COOLDOWN_TIME cfg * HOUR)] w1)
      else (False, w1))"

definition handle_retry_wait :: "config \<Rightarrow> world \<Rightarrow> (py_exception + unit) \<times> world" where
  "handle_retry_wait cfg w =
     (case random_randint (RETRY_TIME_L_BOUND cfg) (RETRY_TIME_U_BOUND cfg) w of
        (Inl e, w1) \<Rightarrow> (Inl e, w1)
      | (Inr retry_wait_time, w1) \<Rightarrow>
          (Inr (), emit [Log (RetryWaitMsg retry_wait_time),
                         Sleep (real_of_int retry_wait_time)] w1))"

definition handle_exception :: "py_exception \<Rightarrow> world \<Rightarrow> world" where
  "handle_exception e w = emit [Log (LoopBrokenMsg e), Voice ExecutionFailedMsg] w"

text \<open>
  The end of the \<open>try\<close> body, reached when no date was selected or \<open>reschedule\<close>
  returned \<open>False\<close>: the elapsed time, the break, the retry wait.
\<close>

definition rest_or_wait :: "config \<Rightarrow> loop_vars \<Rightarrow> world
    \<Rightarrow> (py_exception + control) \<times> loop_vars \<times> world" where
  "rest_or_wait cfg v w =
     (case time_time w of
        (now, w1) \<Rightarrow>
          (let v1 = v\<lparr>total_time := now - t0 v\<rparr> in
           case handle_break_time cfg (total_time v1) (req_count v1) w1 of
             (True, w2) \<Rightarrow> (Inr Continue, v1\<lparr>first_loop := True\<rparr>, w2)
           | (False, w2) \<Rightarrow>
               (case handle_retry_wait cfg w2 of
                  (Inl e, w3) \<Rightarrow> (Inl e, v1, w3)
                | (Inr _, w3) \<Rightarrow> (Inr Continue, v1, w3))))"

text \<open>The \<open>try\<close> body; \<open>Inl e\<close> is an exception that reaches the \<open>except\<close> clause.\<close>

definition try_body :: "config \<Rightarrow> loop_vars \<Rightarrow> world
    \<Rightarrow> (py_exception + control) \<times> loop_vars \<times> world" where
  "try_body cfg v w =
     (case get_consulate_appointment_date (log_request_status (req_count v) w) of
        (dates, w1) \<Rightarrow>
          if \<not> truthy dates
          then (Inr Continue, v\<lparr>first_loop := True\<rparr>, handle_ban_situation cfg w1)
          else
            (case log_available_dates dates w1 of
               Inl e \<Rightarrow> (Inl e, v, w1)
             | Inr w2 \<Rightarrow>
                 (case get_available_date cfg dates of
                    Inl e \<Rightarrow> (Inl e, v, w2)
                  | Inr date \<Rightarrow>
                      if falsy date then rest_or_wait cfg v w2
                      else
                        (case reschedule (the date) w2 of
                           (Inl e, w3) \<Rightarrow> (Inl e, v, w3)
                         | (Inr True, w3) \<Rightarrow> (Inr Break, v, w3)
                         | (Inr False, w3) \<Rightarrow> rest_or_wait cfg v w3))))"

text \<open>The polling part of a pass: from \<open>req_count += 1\<close> to the \<open>except\<close> clause.\<close>

definition poll_block :: "config \<Rightarrow> loop_vars \<Rightarrow> world \<Rightarrow> control \<times> loop_vars \<times> world" where
  "poll_block cfg v w =
     (case try_body cfg (v\<lparr>req_count := req_count v + 1\<rparr>) w of
        (Inl e, v1, w1) \<Rightarrow> (Break, v1, handle_exception e w1)
      | (Inr c, v1, w1) \<Rightarrow> (c, v1, w1))"

text \<open>The \<open>if first_loop:\<close> block at the head of a pass.\<close>

definition login_block :: "loop_vars \<Rightarrow> world \<Rightarrow> control \<times> loop_vars \<times> world" where
  "login_block v w =
     (if first_loop v then
        (if \<not> driver_present w then (Break, v, w)
         else
           (case time_time w of
              (now, w1) \<Rightarrow>
                (let v1 = v\<lparr>t0 := now, total_time := 0, req_count := 0\<rparr> in
                 case start_login_process w1 of
                   (False, w2) \<Rightarrow> (Break, v1, w2)
                 | (True, w2) \<Rightarrow> (Continue, v1\<lparr>first_loop := False\<rparr>, w2))))
      else (Continue, v, w))"

definition loop_pass :: "config \<Rightarrow> loop_vars \<Rightarrow> world \<Rightarrow> control \<times> loop_vars \<times> world" where
  "loop_pass cfg v w =
     (case login_block v w of
        (Break, v1, w1) \<Rightarrow> (Break, v1, w1)
      | (Continue, v1, w1) \<Rightarrow> poll_block cfg v1 w1)"

text \<open>
  \<open>while True\<close>: the loop may run forever, so it is a partial function and \<open>None\<close>
  is not returning.
\<close>

partial_function (option) visa_loop :: "config \<Rightarrow> loop_vars \<times> world \<Rightarrow> (loop_vars \<times> world) option" where
  "visa_loop cfg vw =
     (case loop_pass cfg (fst vw) (snd vw) of
        (Break, v1, w1) \<Rightarrow> Some (v1, w1)
      | (Continue, v1, w1) \<Rightarrow> visa_loop cfg (v1, w1))"

text \<open>\<open>t0\<close> is unbound until the first pass assigns it; any start value will do.\<close>

definition start_visa_process :: "config \<Rightarrow> world \<Rightarrow> (loop_vars \<times> world) option" where
  "start_visa_process cfg w =
     visa_loop cfg (\<lparr>first_loop = True, t0 = 0, total_time = 0, req_count = 0\<rparr>, w)"

section \<open>Well-formed listings and example environments\<close>

text \<open>
  An entry of a date listing as the data model has it: an object with a string
  \<open>date\<close> and a boolean \<open>business_day\<close> (other keys are allowed). \<open>business_dates\<close>
  are the dates of the entries whose flag is true, in the order received.
\<close>

fun available_slot :: "json \<Rightarrow> (string \<times> bool) option" where
  "available_slot (JObj kvs) =
     (case (map_of kvs ''date'', map_of kvs ''business_day'') of
        (Some (JStr d), Some (JBool b)) \<Rightarrow> Some (d, b)
      | _ \<Rightarrow> None)"
| "available_slot _ = None"

definition business_dates :: "json list \<Rightarrow> string list" where
  "business_dates items =
     List.map_filter
       (\<lambda>item. case available_slot item of Some (d, True) \<Rightarrow> Some d | _ \<Rightarrow> None) items"

text \<open>
  An environment in which every read, login and post raises; the examples below change
  the oracle they exercise. \<open>replying j\<close> answers every read with the content \<open>j\<close>.
\<close>

definition offline_world :: world where
  "offline_world =
     \<lparr>driver_present = True,
      script_replies = (\<lambda>k. Raises WebDriverException), n_script = 0,
      login_pages = (\<lambda>k. LoginRaises WebDriverException), n_login = 0,
      post_replies = (\<lambda>k. Inl RequestException), n_post = 0,
      clock_readings = (\<lambda>k. 0), n_clock = 0,
      randint_results = (\<lambda>k a b. Inl TypeError), n_randint = 0,
      trace = []\<rparr>"

definition replying :: "json \<Rightarrow> world" where
  "replying j = offline_world\<lparr>script_replies := (\<lambda>k. Content j)\<rparr>"

definition example_cas_listing :: "json list" where
  "example_cas_listing =
     [JObj [(''date'', JStr ''2024-06-05''), (''business_day'', JBool True)],
      JObj [(''date'', JStr ''2024-06-08''), (''business_day'', JBool True)],
      JObj [(''date'', JStr ''2024-06-09''), (''business_day'', JBool False)]]"

text \<open>
  \<open>failing_once j\<close> raises on the first read and answers \<open>j\<close> from then on;
  \<open>no_times\<close> is a time listing with no time in it.
\<close>

definition failing_once :: "json \<Rightarrow> world" where
  "failing_once j =
     offline_world\<lparr>script_replies := (\<lambda>k. if k = 0 then Raises WebDriverException else Content j)\<rparr>"

definition no_times :: json where
  "no_times = JObj [(''available_times'', JArr [])]"










section \<open>Selection of the closest time\<close>

text \<open>
  The loop of \<open>min\<close> keeps the current best unless a strictly smaller key comes: it
  returns either the start value, when no later key is smaller, or the first item of
  the list whose key is the least.
\<close>

lemma min_loop_first_minimal:
  assumes "\<forall>x \<in> set xs. f x = Inr (g x)"
  shows "(min_loop f b kb xs = Inr b \<and> (\<forall>x \<in> set xs. kb \<le> g x))
       \<or> (\<exists>i < length xs. min_loop f b kb xs = Inr (xs ! i) \<and> g (xs ! i) < kb
             \<and> (\<forall>j < length xs. g (xs ! i) \<le> g (xs ! j))
             \<and> (\<forall>j < i. g (xs ! i) < g (xs ! j)))"
  using assms
proof (induction xs arbitrary: b kb)
  case Nil
  then show ?case by simp
next
  case (Cons x xs)
  have fx: "f x = Inr (g x)" using Cons.prems by simp
  have rest: "\<forall>y \<in> set xs. f y = Inr (g y)" using Cons.prems by simp
  show ?case
  proof (cases "g x < kb")
    case True
    from Cons.IH [OF rest, of x "g x"] show ?thesis
    proof
      assume h: "min_loop f x (g x) xs = Inr x \<and> (\<forall>y \<in> set xs. g x \<le> g y)"
      have "0 < length (x # xs) \<and> min_loop f b kb (x # xs) = Inr ((x # xs) ! 0)
          \<and> g ((x # xs) ! 0) < kb
          \<and> (\<forall>j < length (x # xs). g ((x # xs) ! 0) \<le> g ((x # xs) ! j))
          \<and> (\<forall>j < 0. g ((x # xs) ! 0) < g ((x # xs) ! j))"
        using h fx True by (auto simp: nth_Cons split: nat.splits)
      then show ?thesis by blast
    next
      assume "\<exists>i < length xs. min_loop f x (g x) xs = Inr (xs ! i) \<and> g (xs ! i) < g x
             \<and> (\<forall>j < length xs. g (xs ! i) \<le> g (xs ! j))
             \<and> (\<forall>j < i. g (xs ! i) < g (xs ! j))"
      then obtain i where i: "i < length xs" "min_loop f x (g x) xs = Inr (xs ! i)"
        "g (xs ! i) < g x" "\<forall>j < length xs. g (xs ! i) \<le> g (xs ! j)"
        "\<forall>j < i. g (xs ! i) < g (xs ! j)" by blast
      have "Suc i < length (x # xs) \<and> min_loop f b kb (x # xs) = Inr ((x # xs) ! Suc i)
          \<and> g ((x # xs) ! Suc i) < kb
          \<and> (\<forall>j < length (x # xs). g ((x # xs) ! Suc i) \<le> g ((x # xs) ! j))
          \<and> (\<forall>j < Suc i. g ((x # xs) ! Suc i) < g ((x # xs) ! j))"
        using i fx True by (auto simp: nth_Cons split: nat.splits)
      then show ?thesis by blast
    qed
  next
    case False
    from Cons.IH [OF rest, of b kb] show ?thesis
    proof
      assume "min_loop f b kb xs = Inr b \<and> (\<forall>y \<in> set xs. kb \<le> g y)"
      then show ?thesis using fx False by auto
    next
      assume "\<exists>i < length xs. min_loop f b kb xs = Inr (xs ! i) \<and> g (xs ! i) < kb
             \<and> (\<forall>j < length xs. g (xs ! i) \<le> g (xs ! j))
             \<and> (\<forall>j < i. g (xs ! i) < g (xs ! j))"
      then obtain i where i: "i < length xs" "min_loop f b kb xs = Inr (xs ! i)"
        "g (xs ! i) < kb" "\<forall>j < length xs. g (xs ! i) \<le> g (xs ! j)"
        "\<forall>j < i. g (xs ! i) < g (xs ! j)" by blast
      have "Suc i < length (x # xs) \<and> min_loop f b kb (x # xs) = Inr ((x # xs) ! Suc i)
          \<and> g ((x # xs) ! Suc i) < kb
          \<and> (\<forall>j < length (x # xs). g ((x # xs) ! Suc i) \<le> g ((x # xs) ! j))
          \<and> (\<forall>j < Suc i. g ((x # xs) ! Suc i) < g ((x # xs) ! j))"
        using i fx False by (auto simp: nth_Cons split: nat.splits)
      then show ?thesis by blast
    qed
  qed
qed

lemma py_min_first_minimal:
  assumes "xs \<noteq> []" and "\<forall>x \<in> set xs. f x = Inr (g x)"
  shows "\<exists>i < length xs. py_min f xs = Inr (xs ! i)
             \<and> (\<forall>j < length xs. g (xs ! i) \<le> g (xs ! j))
             \<and> (\<forall>j < i. g (xs ! i) < g (xs ! j))"
proof -
  obtain x rest where xs: "xs = x # rest" using assms(1) by (cases xs) auto
  have fx: "f x = Inr (g x)" and rest: "\<forall>y \<in> set rest. f y = Inr (g y)"
    using assms(2) xs by auto
  from min_loop_first_minimal [OF rest, of x "g x"] show ?thesis
  proof
    assume h: "min_loop f x (g x) rest = Inr x \<and> (\<forall>y \<in> set rest. g x \<le> g y)"
    have "0 < length xs \<and> py_min f xs = Inr (xs ! 0)
          \<and> (\<forall>j < length xs. g (xs ! 0) \<le> g (xs ! j))
          \<and> (\<forall>j < 0. g (xs ! 0) < g (xs ! j))"
      using h fx xs by (auto simp: py_min_def nth_Cons split: nat.splits)
    then show ?thesis by blast
  next
    assume "\<exists>i < length rest. min_loop f x (g x) rest = Inr (rest ! i) \<and> g (rest ! i) < g x
             \<and> (\<forall>j < length rest. g (rest ! i) \<le> g (rest ! j))
             \<and> (\<forall>j < i. g (rest ! i) < g (rest ! j))"
    then obtain i where i: "i < length rest" "min_loop f x (g x) rest = Inr (rest ! i)"
        "g (rest ! i) < g x" "\<forall>j < length rest. g (rest ! i) \<le> g (rest ! j)"
        "\<forall>j < i. g (rest ! i) < g (rest ! j)" by blast
    have "Suc i < length xs \<and> py_min f xs = Inr (xs ! Suc i)
          \<and> (\<forall>j < length xs. g (xs ! Suc i) \<le> g (xs ! j))
          \<and> (\<forall>j < Suc i. g (xs ! Suc i) < g (xs ! j))"
      using i fx xs by (auto simp: py_min_def nth_Cons split: nat.splits)
    then show ?thesis by blast
  qed
qed


lemma time_key_minutes_apart:
  "strptime_HM t \<noteq> None \<Longrightarrow> time_key target t = Inr (minutes_apart target t)"
  by (auto simp: time_key_def minutes_apart_def)

text \<open>
  Claim C5. \<open>closest_time_to_desired_time\<close> is a function of its two arguments. On a
  non-empty list of candidates that all parse as hour:minute, with a desired time that
  parses, it returns a candidate whose distance in minutes to the desired time is the
  least of all candidates, and among those of least distance the first in input order:
  every earlier candidate is strictly farther. For the candidates 09:00, 11:30, 14:00
  and the desired time 10:00 it returns 09:00.
\<close>

theorem closest_time_minimal_first:
  assumes "available_hours \<noteq> []"
    and "\<forall>t \<in> set available_hours. strptime_HM t \<noteq> None"
    and "strptime_HM desired_time = Some target"
  shows "\<exists>i < length available_hours.
           closest_time_to_desired_time available_hours desired_time = Inr (available_hours ! i)
         \<and> (\<forall>j < length available_hours.
               minutes_apart target (available_hours ! i) \<le> minutes_apart target (available_hours ! j))
         \<and> (\<forall>j < i.
               minutes_apart target (available_hours ! i) < minutes_apart target (available_hours ! j))"
proof -
  have keys: "\<forall>t \<in> set available_hours. time_key target t = Inr (minutes_apart target t)"
    using assms(2) by (simp add: time_key_minutes_apart)
  have "closest_time_to_desired_time available_hours desired_time
          = py_min (time_key target) available_hours"
    using assms(3) by (simp add: closest_time_to_desired_time_def)
  with py_min_first_minimal [OF assms(1) keys] show ?thesis by simp
qed

theorem closest_time_minimal_first_witness:
  "[''09:00'', ''11:30'', ''14:00''] \<noteq> []
   \<and> strptime_HM ''10:00'' = Some 600
   \<and> (\<exists>i < length [''09:00'', ''11:30'', ''14:00''].
         closest_time_to_desired_time [''09:00'', ''11:30'', ''14:00''] ''10:00''
           = Inr ([''09:00'', ''11:30'', ''14:00''] ! i)
       \<and> (\<forall>j < length [''09:00'', ''11:30'', ''14:00''].
             minutes_apart 600 ([''09:00'', ''11:30'', ''14:00''] ! i)
               \<le> minutes_apart 600 ([''09:00'', ''11:30'', ''14:00''] ! j))
       \<and> (\<forall>j < i.
             minutes_apart 600 ([''09:00'', ''11:30'', ''14:00''] ! i)
               < minutes_apart 600 ([''09:00'', ''11:30'', ''14:00''] ! j)))
   \<and> closest_time_to_desired_time [''09:00'', ''11:30'', ''14:00''] ''10:00'' = Inr ''09:00''"
proof -
  have h1: "[''09:00'', ''11:30'', ''14:00''] \<noteq> []" by simp
  have h2: "\<forall>t \<in> set [''09:00'', ''11:30'', ''14:00'']. strptime_HM t \<noteq> None"
    by (simp add: strptime_HM_def is_digit_def digit_val_def)
  have h3: "strptime_HM ''10:00'' = Some 600"
    by (simp add: strptime_HM_def is_digit_def digit_val_def)
  have ex: "closest_time_to_desired_time [''09:00'', ''11:30'', ''14:00''] ''10:00'' = Inr ''09:00''"
    by (simp add: closest_time_to_desired_time_def strptime_HM_def py_min_def time_key_def
        is_digit_def digit_val_def)
  from closest_time_minimal_first [OF h1 h2 h3] h1 h3 ex show ?thesis by blast
qed

text \<open>
  Claim C10. On the empty list of candidates \<open>closest_time_to_desired_time\<close> raises
  for every desired time and returns no candidate: \<open>min\<close> has no default for an empty
  sequence (and a desired time that does not parse has raised before).
\<close>

theorem closest_time_empty_raises:
  "closest_time_to_desired_time [] desired_time = Inl ValueError"
  by (simp add: closest_time_to_desired_time_def py_min_def split: option.split)

section \<open>The retry loops of the slot queries\<close>

text \<open>
  Each loop makes at most as many reads as it has passes. When every pass ends in the
  \<open>except\<close> clause the loop returns \<open>False\<close> after all of them, each pass leaving the
  read, the logged error with the parameters of the query and the sleep in the trace;
  when every pass finds nothing, the same with no log entry.
\<close>

lemma get_cas_date_loop_reads:
  "n_script (snd (get_cas_date_loop n cd ct w)) \<le> n_script w + n"
proof (induction n arbitrary: w)
  case 0
  then show ?case by simp
next
  case (Suc n)
  show ?case
    using Suc.IH [of "emit [Sleep STEP_TIME] (snd (execute_script (CAS_DATE_URL cd ct) w))"]
      Suc.IH [of "emit [Log (CasDateErrorMsg cd ct e), Sleep STEP_TIME]
                    (snd (execute_script (CAS_DATE_URL cd ct) w))" for e]
    by (auto simp: execute_script_def emit_def split: sum.splits option.splits)
qed

lemma get_cas_date_loop_all_raise:
  assumes "\<forall>k < n. attempt select_cas_date (script_replies w (n_script w + k)) = Inl (e k)"
  shows "get_cas_date_loop n cd ct w =
           (None, w\<lparr>n_script := n_script w + n,
                     trace := trace w @ concat (map (\<lambda>k. [Script (CAS_DATE_URL cd ct),
                                Log (CasDateErrorMsg cd ct (e k)), Sleep STEP_TIME]) [0..<n])\<rparr>)"
  using assms
proof (induction n arbitrary: w e)
  case 0
  then show ?case by simp
next
  case (Suc n)
  let ?w1 = "emit [Log (CasDateErrorMsg cd ct (e 0)), Sleep STEP_TIME]
               (snd (execute_script (CAS_DATE_URL cd ct) w))"
  have first: "attempt select_cas_date (script_replies w (n_script w)) = Inl (e 0)"
    using Suc.prems by force
  have rest: "\<forall>k < n. attempt select_cas_date (script_replies ?w1 (n_script ?w1 + k)) = Inl (e (Suc k))"
    using Suc.prems by (auto simp: execute_script_def emit_def)
  have "get_cas_date_loop (Suc n) cd ct w = get_cas_date_loop n cd ct ?w1"
    using first by (simp add: execute_script_def)
  also note Suc.IH [OF rest]
  finally show ?case
    by (simp add: execute_script_def emit_def map_upt_Suc del: upt_Suc)
qed

lemma get_cas_date_loop_all_empty:
  assumes "\<forall>k < n. attempt select_cas_date (script_replies w (n_script w + k)) = Inr None"
  shows "get_cas_date_loop n cd ct w =
           (None, w\<lparr>n_script := n_script w + n,
                     trace := trace w @ concat (replicate n [Script (CAS_DATE_URL cd ct), Sleep STEP_TIME])\<rparr>)"
  using assms
proof (induction n arbitrary: w)
  case 0
  then show ?case by simp
next
  case (Suc n)
  let ?w1 = "emit [Sleep STEP_TIME] (snd (execute_script (CAS_DATE_URL cd ct) w))"
  have first: "attempt select_cas_date (script_replies w (n_script w)) = Inr None"
    using Suc.prems by force
  have rest: "\<forall>k < n. attempt select_cas_date (script_replies ?w1 (n_script ?w1 + k)) = Inr None"
    using Suc.prems by (auto simp: execute_script_def emit_def)
  have "get_cas_date_loop (Suc n) cd ct w = get_cas_date_loop n cd ct ?w1"
    using first by (simp add: execute_script_def)
  also note Suc.IH [OF rest]
  finally show ?case
    by (simp add: execute_script_def emit_def)
qed

lemma get_cas_time_loop_reads:
  "n_script (snd (get_cas_time_loop n cd ct csd w)) \<le> n_script w + n"
proof (induction n arbitrary: w)
  case 0
  then show ?case by simp
next
  case (Suc n)
  show ?case
    using Suc.IH [of "emit [Sleep STEP_TIME] (snd (execute_script (CAS_TIME_URL csd cd ct) w))"]
      Suc.IH [of "emit [Log (CasTimeErrorMsg csd cd ct e), Sleep STEP_TIME]
                    (snd (execute_script (CAS_TIME_URL csd cd ct) w))" for e]
    by (auto simp: execute_script_def emit_def split: sum.splits option.splits)
qed

lemma get_cas_time_loop_all_raise:
  assumes "\<forall>k < n. attempt select_cas_time (script_replies w (n_script w + k)) = Inl (e k)"
  shows "get_cas_time_loop n cd ct csd w =
           (None, w\<lparr>n_script := n_script w + n,
                     trace := trace w @ concat (map (\<lambda>k. [Script (CAS_TIME_URL csd cd ct),
                                Log (CasTimeErrorMsg csd cd ct (e k)), Sleep STEP_TIME]) [0..<n])\<rparr>)"
  using assms
proof (induction n arbitrary: w e)
  case 0
  then show ?case by simp
next
  case (Suc n)
  let ?w1 = "emit [Log (CasTimeErrorMsg csd cd ct (e 0)), Sleep STEP_TIME]
               (snd (execute_script (CAS_TIME_URL csd cd ct) w))"
  have first: "attempt select_cas_time (script_replies w (n_script w)) = Inl (e 0)"
    using Suc.prems by force
  have rest: "\<forall>k < n. attempt select_cas_time (script_replies ?w1 (n_script ?w1 + k)) = Inl (e (Suc k))"
    using Suc.prems by (auto simp: execute_script_def emit_def)
  have "get_cas_time_loop (Suc n) cd ct csd w = get_cas_time_loop n cd ct csd ?w1"
    using first by (simp add: execute_script_def)
  also note Suc.IH [OF rest]
  finally show ?case
    by (simp add: execute_script_def emit_def map_upt_Suc del: upt_Suc)
qed

lemma get_cas_time_loop_all_empty:
  assumes "\<forall>k < n. attempt select_cas_time (script_replies w (n_script w + k)) = Inr None"
  shows "get_cas_time_loop n cd ct csd w =
           (None, w\<lparr>n_script := n_script w + n,
                     trace := trace w @ concat (replicate n [Script (CAS_TIME_URL csd cd ct), Sleep STEP_TIME])\<rparr>)"
  using assms
proof (induction n arbitrary: w)
  case 0
  then show ?case by simp
next
  case (Suc n)
  let ?w1 = "emit [Sleep STEP_TIME] (snd (execute_script (CAS_TIME_URL csd cd ct) w))"
  have first: "attempt select_cas_time (script_replies w (n_script w)) = Inr None"
    using Suc.prems by force
  have rest: "\<forall>k < n. attempt select_cas_time (script_replies ?w1 (n_script ?w1 + k)) = Inr None"
    using Suc.prems by (auto simp: execute_script_def emit_def)
  have "get_cas_time_loop (Suc n) cd ct csd w = get_cas_time_loop n cd ct csd ?w1"
    using first by (simp add: execute_script_def)
  also note Suc.IH [OF rest]
  finally show ?case
    by (simp add: execute_script_def emit_def)
qed

lemma get_consulate_appointment_time_loop_reads:
  "n_script (snd (get_consulate_appointment_time_loop n dv w)) \<le> n_script w + n"
proof (induction n arbitrary: w)
  case 0
  then show ?case by simp
next
  case (Suc n)
  show ?case
    using Suc.IH [of "emit [Log (TimeErrorMsg dv e), Sleep STEP_TIME]
                    (snd (execute_script (TIME_URL dv) w))" for e]
    by (auto simp: execute_script_def emit_def split: sum.splits option.splits)
qed

lemma get_consulate_appointment_time_loop_all_raise:
  assumes "\<forall>k < n. attempt select_time (script_replies w (n_script w + k)) = Inl (e k)"
  shows "get_consulate_appointment_time_loop n dv w =
           (None, w\<lparr>n_script := n_script w + n,
                     trace := trace w @ concat (map (\<lambda>k. [Script (TIME_URL dv),
                                Log (TimeErrorMsg dv (e k)), Sleep STEP_TIME]) [0..<n])\<rparr>)"
  using assms
proof (induction n arbitrary: w e)
  case 0
  then show ?case by simp
next
  case (Suc n)
  let ?w1 = "emit [Log (TimeErrorMsg dv (e 0)), Sleep STEP_TIME]
               (snd (execute_script (TIME_URL dv) w))"
  have first: "attempt select_time (script_replies w (n_script w)) = Inl (e 0)"
    using Suc.prems by force
  have rest: "\<forall>k < n. attempt select_time (script_replies ?w1 (n_script ?w1 + k)) = Inl (e (Suc k))"
    using Suc.prems by (auto simp: execute_script_def emit_def)
  have "get_consulate_appointment_time_loop (Suc n) dv w = get_consulate_appointment_time_loop n dv ?w1"
    using first by (simp add: execute_script_def)
  also note Suc.IH [OF rest]
  finally show ?case
    by (simp add: execute_script_def emit_def map_upt_Suc del: upt_Suc)
qed


lemma all_strs_map_JStr: "all_strs (map JStr ss) = Inr ss"
  by (induction ss) auto

lemma business_day_dates_slots:
  "\<forall>item \<in> set items. available_slot item \<noteq> None \<Longrightarrow>
   business_day_dates items = Inr (map JStr (business_dates items))"
proof (induction items)
  case Nil
  then show ?case by (simp add: business_dates_def)
next
  case (Cons item items)
  then obtain kvs d b where item: "item = JObj kvs" "map_of kvs ''date'' = Some (JStr d)"
      "map_of kvs ''business_day'' = Some (JBool b)"
    by (cases item) (auto split: option.splits json.splits)
  from Cons have IH: "business_day_dates items = Inr (map JStr (business_dates items))" by simp
  show ?case using item IH
    by (cases b) (simp_all add: py_get_def py_subscript_def business_dates_def)
qed

lemma select_cas_date_slots:
  assumes "\<forall>item \<in> set items. available_slot item \<noteq> None"
  shows "select_cas_date (JArr items) =
           Inr (if business_dates items = [] then None else Some (last (business_dates items)))"
  using business_day_dates_slots [OF assms]
  by (simp add: select_cas_date_def py_iter_def all_strs_map_JStr)

lemma five: "REQUEST_ATTEMPTS = Suc (Suc (Suc (Suc (Suc 0))))"
  by (simp add: REQUEST_ATTEMPTS_def eval_nat_numeral)

text \<open>
  Claim C2. When the read of the secondary-facility date listing returns well-formed
  entries of which at least one is a business day, \<open>get_cas_date\<close> returns on that
  first read the LAST date of the entries whose \<open>business_day\<close> flag is true, taken in
  the order received. For the entries 2024-06-05 and 2024-06-08 (business days)
  followed by 2024-06-09 (not a business day) it returns 2024-06-08.
\<close>

theorem get_cas_date_last_business_day:
  assumes "script_replies w (n_script w) = Content (JArr items)"
    and "\<forall>item \<in> set items. available_slot item \<noteq> None"
    and "business_dates items \<noteq> []"
  shows "get_cas_date consulate_date consulate_time w =
           (Some (last (business_dates items)),
            w\<lparr>n_script := Suc (n_script w),
              trace := trace w @ [Script (CAS_DATE_URL consulate_date consulate_time)]\<rparr>)"
  using assms(1,3) select_cas_date_slots [OF assms(2)]
  by (simp add: get_cas_date_def five execute_script_def attempt_def)

theorem get_cas_date_last_business_day_witness:
  "get_cas_date ''2024-06-10'' ''09:00'' (replying (JArr example_cas_listing))
   = (Some ''2024-06-08'',
      (replying (JArr example_cas_listing))
        \<lparr>n_script := 1, trace := [Script (CAS_DATE_URL ''2024-06-10'' ''09:00'')]\<rparr>)"
proof -
  let ?w = "replying (JArr example_cas_listing)"
  have h1: "script_replies ?w (n_script ?w) = Content (JArr example_cas_listing)"
    by (simp add: replying_def)
  have h2: "\<forall>item \<in> set example_cas_listing. available_slot item \<noteq> None"
    by (auto simp: example_cas_listing_def)
  have bd: "business_dates example_cas_listing = [''2024-06-05'', ''2024-06-08'']"
    by (simp add: example_cas_listing_def business_dates_def)
  have h3: "business_dates example_cas_listing \<noteq> []"
    by (simp add: bd)
  have "n_script ?w = 0" "trace ?w = []"
    by (simp_all add: replying_def offline_world_def)
  with get_cas_date_last_business_day [OF h1 h2 h3, of "''2024-06-10''" "''09:00''"] bd
  show ?thesis by simp
qed

section \<open>Empty results and failing reads\<close>

lemma attempt_no_dates: "attempt select_cas_date (Content (JArr [])) = Inr None"
  by (simp add: attempt_def select_cas_date_def py_iter_def)

lemma attempt_no_cas_times: "attempt select_cas_time (Content no_times) = Inr None"
  by (simp add: attempt_def select_cas_time_def py_get_def no_times_def)

lemma attempt_no_times: "attempt select_time (Content no_times) = Inl ValueError"
  by (simp add: attempt_def select_time_def py_get_def py_join_def py_iter_def no_times_def
      closest_time_to_desired_time_def py_min_def split: option.split)

lemma attempt_Raises: "attempt select (Raises e) = Inl e"
  by (simp add: attempt_def)

text \<open>
  Claim C1, as amended. The primary date query returns the parsed content of a
  successful read unchanged after that one read, so an empty listing reaches the
  polling loop as the empty sequence. The three other queries do not return an empty
  result: the secondary date and secondary time queries sleep the step delay and read
  again, the primary time query does the same through its \<open>except\<close> clause (\<open>min\<close> of
  the empty list raises), and when all five reads are empty each returns \<open>False\<close>.
\<close>

theorem empty_result_handling:
  "(script_replies w (n_script w) = Content j \<longrightarrow>
      get_consulate_appointment_date w =
        (j, w\<lparr>n_script := Suc (n_script w), trace := trace w @ [Script DATE_URL]\<rparr>))
   \<and> ((\<forall>k < 5. script_replies w (n_script w + k) = Content (JArr [])) \<longrightarrow>
        get_cas_date consulate_date consulate_time w =
          (None, w\<lparr>n_script := n_script w + 5,
                    trace := trace w @ concat (replicate 5
                      [Script (CAS_DATE_URL consulate_date consulate_time), Sleep STEP_TIME])\<rparr>))
   \<and> ((\<forall>k < 5. script_replies w (n_script w + k) = Content no_times) \<longrightarrow>
        get_cas_time consulate_date consulate_time cas_date w =
          (None, w\<lparr>n_script := n_script w + 5,
                    trace := trace w @ concat (replicate 5
                      [Script (CAS_TIME_URL cas_date consulate_date consulate_time),
                       Sleep STEP_TIME])\<rparr>)
        \<and> get_consulate_appointment_time consulate_date w =
          (None, w\<lparr>n_script := n_script w + 5,
                    trace := trace w @ concat (replicate 5
                      [Script (TIME_URL consulate_date),
                       Log (TimeErrorMsg consulate_date ValueError), Sleep STEP_TIME])\<rparr>))"
proof (intro conjI impI)
  assume "script_replies w (n_script w) = Content j"
  then show "get_consulate_appointment_date w =
        (j, w\<lparr>n_script := Suc (n_script w), trace := trace w @ [Script DATE_URL]\<rparr>)"
    by (simp add: get_consulate_appointment_date_def execute_script_def)
next
  assume "\<forall>k < 5. script_replies w (n_script w + k) = Content (JArr [])"
  then have "\<forall>k < 5. attempt select_cas_date (script_replies w (n_script w + k)) = Inr None"
    by (simp add: attempt_no_dates)
  from get_cas_date_loop_all_empty [OF this]
  show "get_cas_date consulate_date consulate_time w =
          (None, w\<lparr>n_script := n_script w + 5,
                    trace := trace w @ concat (replicate 5
                      [Script (CAS_DATE_URL consulate_date consulate_time), Sleep STEP_TIME])\<rparr>)"
    by (simp add: get_cas_date_def REQUEST_ATTEMPTS_def)
next
  assume h: "\<forall>k < 5. script_replies w (n_script w + k) = Content no_times"
  then have "\<forall>k < 5. attempt select_cas_time (script_replies w (n_script w + k)) = Inr None"
    by (simp add: attempt_no_cas_times)
  from get_cas_time_loop_all_empty [OF this]
  show "get_cas_time consulate_date consulate_time cas_date w =
          (None, w\<lparr>n_script := n_script w + 5,
                    trace := trace w @ concat (replicate 5
                      [Script (CAS_TIME_URL cas_date consulate_date consulate_time),
                       Sleep STEP_TIME])\<rparr>)"
    by (simp add: get_cas_time_def REQUEST_ATTEMPTS_def)
next
  assume h: "\<forall>k < 5. script_replies w (n_script w + k) = Content no_times"
  then have "\<forall>k < 5. attempt select_time (script_replies w (n_script w + k)) = Inl ((\<lambda>k. ValueError) k)"
    by (simp add: attempt_no_times)
  from get_consulate_appointment_time_loop_all_raise [OF this]
  have "get_consulate_appointment_time consulate_date w =
          (None, w\<lparr>n_script := n_script w + 5,
             trace := trace w @ concat (map (\<lambda>k. [Script (TIME_URL consulate_date),
                       Log (TimeErrorMsg consulate_date ValueError), Sleep STEP_TIME]) [0..<5])\<rparr>)"
    by (simp add: get_consulate_appointment_time_def REQUEST_ATTEMPTS_def)
  moreover have "map (\<lambda>k. [Script (TIME_URL consulate_date),
                       Log (TimeErrorMsg consulate_date ValueError), Sleep STEP_TIME]) [0..<5]
       = replicate 5 [Script (TIME_URL consulate_date),
                       Log (TimeErrorMsg consulate_date ValueError), Sleep STEP_TIME]"
    by (simp add: map_replicate_const)
  ultimately show "get_consulate_appointment_time consulate_date w =
          (None, w\<lparr>n_script := n_script w + 5,
                    trace := trace w @ concat (replicate 5
                      [Script (TIME_URL consulate_date),
                       Log (TimeErrorMsg consulate_date ValueError), Sleep STEP_TIME])\<rparr>)"
    by simp
qed

theorem empty_result_handling_witness:
  "get_consulate_appointment_date (replying (JArr [])) =
     (JArr [], (replying (JArr []))\<lparr>n_script := 1, trace := [Script DATE_URL]\<rparr>)
   \<and> get_cas_date ''2024-06-10'' ''09:00'' (replying (JArr [])) =
     (None, (replying (JArr []))\<lparr>n_script := 5,
        trace := concat (replicate 5
          [Script (CAS_DATE_URL ''2024-06-10'' ''09:00''), Sleep STEP_TIME])\<rparr>)
   \<and> get_cas_time ''2024-06-10'' ''09:00'' ''2024-06-08'' (replying no_times) =
     (None, (replying no_times)\<lparr>n_script := 5,
        trace := concat (replicate 5
          [Script (CAS_TIME_URL ''2024-06-08'' ''2024-06-10'' ''09:00''), Sleep STEP_TIME])\<rparr>)
   \<and> get_consulate_appointment_time ''2024-06-10'' (replying no_times) =
     (None, (replying no_times)\<lparr>n_script := 5,
        trace := concat (replicate 5
          [Script (TIME_URL ''2024-06-10''),
           Log (TimeErrorMsg ''2024-06-10'' ValueError), Sleep STEP_TIME])\<rparr>)"
proof -
  have r: "script_replies (replying j) k = Content j" "n_script (replying j) = 0"
    "trace (replying j) = []" for j k
    by (simp_all add: replying_def offline_world_def)
  show ?thesis
    using empty_result_handling [of "replying (JArr [])" "JArr []" "''2024-06-10''" "''09:00''"]
      empty_result_handling [of "replying no_times" "no_times" "''2024-06-10''" "''09:00''" "''2024-06-08''"]
    by (simp add: r)
qed

text \<open>
  The claim as stated fails for the secondary date query: a successful read of an
  empty listing is followed by four more reads and the result is \<open>False\<close>, not an
  empty sequence.
\<close>

theorem empty_cas_listing_is_retried:
  "script_replies (replying (JArr [])) (n_script (replying (JArr []))) = Content (JArr [])
   \<and> get_cas_date ''2024-06-10'' ''09:00'' (replying (JArr [])) =
     (None, (replying (JArr []))\<lparr>n_script := 5,
        trace := [Script (CAS_DATE_URL ''2024-06-10'' ''09:00''), Sleep STEP_TIME,
                  Script (CAS_DATE_URL ''2024-06-10'' ''09:00''), Sleep STEP_TIME,
                  Script (CAS_DATE_URL ''2024-06-10'' ''09:00''), Sleep STEP_TIME,
                  Script (CAS_DATE_URL ''2024-06-10'' ''09:00''), Sleep STEP_TIME,
                  Script (CAS_DATE_URL ''2024-06-10'' ''09:00''), Sleep STEP_TIME]\<rparr>)"
  by (simp add: get_cas_date_def five replying_def offline_world_def execute_script_def
      emit_def attempt_no_dates)


text \<open>
  Claim C6, as amended. The primary time, secondary date and secondary time queries
  make at most five reads. When each of the five reads raises, the query returns
  \<open>False\<close> after the fifth, and every pass has logged the exception with the
  parameters of the query and slept the fixed step delay. The primary date query makes
  one read: when it raises, the query returns \<open>False\<close> at once, with no log entry, no
  delay and no second read.
\<close>

theorem slot_query_retries:
  assumes "\<forall>k < 5. script_replies w (n_script w + k) = Raises (e k)"
  shows "n_script (snd (get_consulate_appointment_time consulate_date w)) \<le> n_script w + 5
   \<and> n_script (snd (get_cas_date consulate_date consulate_time w)) \<le> n_script w + 5
   \<and> n_script (snd (get_cas_time consulate_date consulate_time cas_date w)) \<le> n_script w + 5
   \<and> get_consulate_appointment_time consulate_date w =
        (None, w\<lparr>n_script := n_script w + 5,
                  trace := trace w @ concat (map (\<lambda>k.
                    [Script (TIME_URL consulate_date),
                     Log (TimeErrorMsg consulate_date (e k)),
                     Sleep STEP_TIME]) [0..<5])\<rparr>)
   \<and> get_cas_date consulate_date consulate_time w =
        (None, w\<lparr>n_script := n_script w + 5,
                  trace := trace w @ concat (map (\<lambda>k.
                    [Script (CAS_DATE_URL consulate_date consulate_time),
                     Log (CasDateErrorMsg consulate_date consulate_time (e k)),
                     Sleep STEP_TIME]) [0..<5])\<rparr>)
   \<and> get_cas_time consulate_date consulate_time cas_date w =
        (None, w\<lparr>n_script := n_script w + 5,
                  trace := trace w @ concat (map (\<lambda>k.
                    [Script (CAS_TIME_URL cas_date consulate_date consulate_time),
                     Log (CasTimeErrorMsg cas_date consulate_date consulate_time (e k)),
                     Sleep STEP_TIME]) [0..<5])\<rparr>)
   \<and> get_consulate_appointment_date w =
        (JBool False, w\<lparr>n_script := Suc (n_script w), trace := trace w @ [Script DATE_URL]\<rparr>)"
proof -
  have fails: "\<forall>k < 5. attempt select (script_replies w (n_script w + k)) = Inl (e k)" for select
    using assms by (simp add: attempt_Raises)
  have b1: "n_script (snd (get_consulate_appointment_time consulate_date w)) \<le> n_script w + 5"
    using get_consulate_appointment_time_loop_reads [of 5 consulate_date w]
    by (simp add: get_consulate_appointment_time_def REQUEST_ATTEMPTS_def)
  have b2: "n_script (snd (get_cas_date consulate_date consulate_time w)) \<le> n_script w + 5"
    using get_cas_date_loop_reads [of 5 consulate_date consulate_time w]
    by (simp add: get_cas_date_def REQUEST_ATTEMPTS_def)
  have b3: "n_script (snd (get_cas_time consulate_date consulate_time cas_date w)) \<le> n_script w + 5"
    using get_cas_time_loop_reads [of 5 consulate_date consulate_time cas_date w]
    by (simp add: get_cas_time_def REQUEST_ATTEMPTS_def)
  have f1: "get_consulate_appointment_time consulate_date w =
        (None, w\<lparr>n_script := n_script w + 5,
                  trace := trace w @ concat (map (\<lambda>k.
                    [Script (TIME_URL consulate_date),
                     Log (TimeErrorMsg consulate_date (e k)),
                     Sleep STEP_TIME]) [0..<5])\<rparr>)"
    using get_consulate_appointment_time_loop_all_raise [OF fails, of consulate_date]
    by (simp only: get_consulate_appointment_time_def REQUEST_ATTEMPTS_def)
  have f2: "get_cas_date consulate_date consulate_time w =
        (None, w\<lparr>n_script := n_script w + 5,
                  trace := trace w @ concat (map (\<lambda>k.
                    [Script (CAS_DATE_URL consulate_date consulate_time),
                     Log (CasDateErrorMsg consulate_date consulate_time (e k)),
                     Sleep STEP_TIME]) [0..<5])\<rparr>)"
    using get_cas_date_loop_all_raise [OF fails, of consulate_date consulate_time]
    by (simp only: get_cas_date_def REQUEST_ATTEMPTS_def)
  have f3: "get_cas_time consulate_date consulate_time cas_date w =
        (None, w\<lparr>n_script := n_script w + 5,
                  trace := trace w @ concat (map (\<lambda>k.
                    [Script (CAS_TIME_URL cas_date consulate_date consulate_time),
                     Log (CasTimeErrorMsg cas_date consulate_date consulate_time (e k)),
                     Sleep STEP_TIME]) [0..<5])\<rparr>)"
    using get_cas_time_loop_all_raise [OF fails, of consulate_date consulate_time cas_date]
    by (simp only: get_cas_time_def REQUEST_ATTEMPTS_def)
  have "script_replies w (n_script w) = Raises (e 0)"
    using assms by force
  then have f4: "get_consulate_appointment_date w =
        (JBool False, w\<lparr>n_script := Suc (n_script w), trace := trace w @ [Script DATE_URL]\<rparr>)"
    by (simp add: get_consulate_appointment_date_def execute_script_def)
  from b1 b2 b3 f1 f2 f3 f4 show ?thesis by blast
qed

theorem slot_query_retries_witness:
  "get_consulate_appointment_time ''2024-06-10'' offline_world =
     (None, offline_world\<lparr>n_script := 5,
        trace := concat (replicate 5
          [Script (TIME_URL ''2024-06-10''),
           Log (TimeErrorMsg ''2024-06-10'' WebDriverException), Sleep STEP_TIME])\<rparr>)
   \<and> get_cas_date ''2024-06-10'' ''09:00'' offline_world =
     (None, offline_world\<lparr>n_script := 5,
        trace := concat (replicate 5
          [Script (CAS_DATE_URL ''2024-06-10'' ''09:00''),
           Log (CasDateErrorMsg ''2024-06-10'' ''09:00'' WebDriverException), Sleep STEP_TIME])\<rparr>)
   \<and> get_cas_time ''2024-06-10'' ''09:00'' ''2024-06-08'' offline_world =
     (None, offline_world\<lparr>n_script := 5,
        trace := concat (replicate 5
          [Script (CAS_TIME_URL ''2024-06-08'' ''2024-06-10'' ''09:00''),
           Log (CasTimeErrorMsg ''2024-06-08'' ''2024-06-10'' ''09:00'' WebDriverException),
           Sleep STEP_TIME])\<rparr>)
   \<and> get_consulate_appointment_date offline_world =
     (JBool False, offline_world\<lparr>n_script := 1, trace := [Script DATE_URL]\<rparr>)"
proof -
  have h: "\<forall>k < 5. script_replies offline_world (n_script offline_world + k)
             = Raises ((\<lambda>k. WebDriverException) k)"
    by (simp add: offline_world_def)
  have r: "n_script offline_world = 0" "trace offline_world = []"
    by (simp_all add: offline_world_def)
  show ?thesis
    using slot_query_retries [OF h, of "''2024-06-10''" "''09:00''" "''2024-06-08''"]
    by (simp add: r map_replicate_const)
qed

text \<open>
  The claim as stated fails for the primary date query: its first read raises, the
  second would have returned a listing, and the query has returned \<open>False\<close> after the
  first without a delay or a log entry.
\<close>

theorem date_query_single_attempt:
  "script_replies (failing_once (JArr example_cas_listing)) 1 = Content (JArr example_cas_listing)
   \<and> get_consulate_appointment_date (failing_once (JArr example_cas_listing)) =
       (JBool False,
        (failing_once (JArr example_cas_listing))\<lparr>n_script := 1, trace := [Script DATE_URL]\<rparr>)"
  by (simp add: get_consulate_appointment_date_def execute_script_def failing_once_def
      offline_world_def)

section \<open>Login\<close>





section \<open>Submission\<close>








section \<open>The polling loop\<close>



























end
